theory Spec2Isabelle
  imports Main "HOL-Library.Multiset"
begin

section \<open>Errors\<close>

text \<open>
  The source raises the builtin \<open>Exception\<close> with a fixed message at three places; numpy
  and pandas raise \<open>IndexError\<close>, \<open>TypeError\<close> and \<open>ValueError\<close>; reading an attribute that
  was never assigned raises \<open>AttributeError\<close>; whatever the sampling
  backend raises is a \<open>BackendError\<close>. A Python method that raises is a result \<open>Inl e\<close>.
\<close>

datatype error =
  Exception string | IndexError | TypeError | ValueError | AttributeError | BackendError string

text \<open>
  The three messages of the source (adjacent string literals are concatenated without a
  blank). The names are those of the specification's error taxonomy.
\<close>

definition InputShapeError :: error where
  "InputShapeError =
     Exception ''Number of subjects indices shouldcorrespond to number of rows in thedesign matrices.''"

definition SignalShapeError :: error where
  "SignalShapeError =
     Exception ''Signal should have same number of elementsas rows in the design matrix.''"

definition NotSampledError :: error where
  "NotSampledError = Exception ''Model has not been sampled yet!''"

section \<open>numpy arrays\<close>

text \<open>
  An \<open>ndarray\<close> is its shape and its elements in row-major (C) order. A 0-dimensional
  array has the empty shape and one element.
\<close>

record 'a ndarray =
  shape :: "nat list"
  flat :: "'a list"

definition wf_ndarray :: "'a ndarray \<Rightarrow> bool" where
  "wf_ndarray a = (length (flat a) = prod_list (shape a))"

text \<open>
  \<open>np.array(seq)\<close> of a Python sequence of \<open>n\<close> scalars is a 1-dimensional array of \<open>n\<close>
  elements of one dtype. \<open>xs\<close> are the elements as the array stores them, that is after
  numpy has coerced the sequence to that dtype.
\<close>

definition np_array :: "'a list \<Rightarrow> 'a ndarray" where
  "np_array xs = \<lparr>shape = [length xs], flat = xs\<rparr>"

text \<open>\<open>a.squeeze()\<close> drops every axis of length one and keeps the elements.\<close>

definition squeeze :: "'a ndarray \<Rightarrow> 'a ndarray" where
  "squeeze a = a\<lparr>shape := filter (\<lambda>d. d \<noteq> 1) (shape a)\<rparr>"

text \<open>\<open>a.shape[0]\<close>: indexing the empty tuple raises \<open>IndexError\<close>.\<close>

definition shape0 :: "'a ndarray \<Rightarrow> error + nat" where
  "shape0 a = (case shape a of [] \<Rightarrow> Inl IndexError | d # _ \<Rightarrow> Inr d)"

text \<open>\<open>len(a)\<close>: a 0-dimensional array is unsized and \<open>len\<close> raises \<open>TypeError\<close>.\<close>

definition len :: "'a ndarray \<Rightarrow> error + nat" where
  "len a = (case shape a of [] \<Rightarrow> Inl TypeError | d # _ \<Rightarrow> Inr d)"

text \<open>
  \<open>a[i, j, ...]\<close> with a full index reads the element at the row-major offset of the
  index (the index is taken to be within the shape).
\<close>

definition ravel :: "nat list \<Rightarrow> nat list \<Rightarrow> nat" where
  "ravel s idx = foldl (\<lambda>acc (d, i). acc * d + i) 0 (zip s idx)"

definition item :: "'a ndarray \<Rightarrow> nat list \<Rightarrow> 'a" where
  "item a idx = flat a ! ravel (shape a) idx"

text \<open>
  numpy sorts and searches by a total order of the element type, which the linear order of
  the type \<open>'a\<close> stands for. \<open>np.unique(a)\<close> flattens, sorts, and keeps one element of
  each run of equal elements; the result is 1-dimensional. \<open>np.sort\<close> of a 1-dimensional
  array sorts it.
\<close>

definition np_unique :: "('a::linorder) ndarray \<Rightarrow> 'a list" where
  "np_unique a = remdups_adj (sort (flat a))"

definition np_sort :: "('a::linorder) list \<Rightarrow> 'a list" where
  "np_sort xs = sort xs"

text \<open>
  \<open>np.searchsorted(a, v)\<close> with the default \<open>side='left'\<close>: for every element of \<open>v\<close>
  a binary search in \<open>a\<close>,
  \<^verbatim>\<open>while (min_idx < max_idx) {
      mid = min_idx + ((max_idx - min_idx) >> 1);
      if (a[mid] < key) min_idx = mid + 1; else max_idx = mid; }\<close>
  where \<open><\<close> is the order numpy sorts by. The result has the shape of \<open>v\<close> and integer
  elements.
\<close>

function binsearch_left :: "('a::linorder) list \<Rightarrow> 'a \<Rightarrow> nat \<Rightarrow> nat \<Rightarrow> nat" where
  "binsearch_left a key min_idx max_idx =
     (if min_idx < max_idx then
        (let mid = min_idx + (max_idx - min_idx) div 2
         in if a ! mid < key then binsearch_left a key (mid + 1) max_idx
            else binsearch_left a key min_idx mid)
      else min_idx)"
  by pat_completeness auto
termination
  by (relation "measure (\<lambda>(a, key, min_idx, max_idx). max_idx - min_idx)") auto

definition searchsorted :: "('a::linorder) list \<Rightarrow> 'a ndarray \<Rightarrow> int ndarray" where
  "searchsorted a v =
     \<lparr>shape = shape v, flat = map (\<lambda>key. int (binsearch_left a key 0 (length a))) (flat v)\<rparr>"

subsection \<open>Floating-point identifiers\<close>

text \<open>
  A float is a number or NaN. Python's \<open>==\<close> and \<open><\<close> are false whenever an operand is
  NaN, so NaN is not even equal to itself; numpy's sort order is total and puts NaN after
  every number. Identifiers without NaN (integers, strings, ordinary floats) are the
  values \<open>Val a\<close>, on which the three relations are those of the linear order.
\<close>

datatype 'a label = Val 'a | NaN

fun py_eq :: "'a label \<Rightarrow> 'a label \<Rightarrow> bool" where
  "py_eq (Val a) (Val b) = (a = b)"
| "py_eq _ _ = False"

fun py_lt :: "('a::linorder) label \<Rightarrow> 'a label \<Rightarrow> bool" where
  "py_lt (Val a) (Val b) = (a < b)"
| "py_lt _ _ = False"

instantiation label :: (linorder) linorder
begin

fun less_eq_label :: "'a label \<Rightarrow> 'a label \<Rightarrow> bool" where
  "less_eq_label (Val a) (Val b) = (a \<le> b)"
| "less_eq_label x NaN = True"
| "less_eq_label NaN (Val b) = False"

fun less_label :: "'a label \<Rightarrow> 'a label \<Rightarrow> bool" where
  "less_label (Val a) (Val b) = (a < b)"
| "less_label (Val a) NaN = True"
| "less_label NaN y = False"

instance
proof
  fix x y z :: "'a label"
  show "(x < y) = (x \<le> y \<and> \<not> y \<le> x)"
    by (cases x; cases y) auto
  show "x \<le> x"
    by (cases x) auto
  show "x \<le> y \<Longrightarrow> y \<le> z \<Longrightarrow> x \<le> z"
    by (cases x; cases y; cases z) auto
  show "x \<le> y \<Longrightarrow> y \<le> x \<Longrightarrow> x = y"
    by (cases x; cases y) auto
  show "x \<le> y \<or> y \<le> x"
    by (cases x; cases y) auto
qed

end

text \<open>
  Since numpy 1.21 \<open>np.unique\<close> keeps a single NaN, as \<open>np_unique\<close> does at the type of
  labels. Before, it kept every element with \<open>aux[i] != aux[i-1]\<close> in Python's sense,
  hence every NaN; without NaN the two agree.
\<close>

fun unique_from :: "'a label \<Rightarrow> 'a label list \<Rightarrow> 'a label list" where
  "unique_from prev [] = []"
| "unique_from prev (y # ys) = (if \<not> py_eq y prev then y # unique_from y ys else unique_from y ys)"

definition np_unique_legacy :: "('a::linorder) label ndarray \<Rightarrow> 'a label list" where
  "np_unique_legacy a = (case sort (flat a) of [] \<Rightarrow> [] | x # xs \<Rightarrow> x # unique_from x xs)"

section \<open>pandas data frames\<close>

text \<open>
  A \<open>DataFrame\<close> is its column labels and its rows; \<open>df.shape\<close> is (number of rows,
  number of columns), \<open>df.values\<close> the rows.
\<close>

record ('c, 'v) dataframe =
  df_columns :: "'c list"
  df_values :: "'v list list"

definition wf_dataframe :: "('c, 'v) dataframe \<Rightarrow> bool" where
  "wf_dataframe df = (\<forall>r \<in> set (df_values df). length r = length (df_columns df))"

definition df_shape0 :: "('c, 'v) dataframe \<Rightarrow> nat" where
  "df_shape0 df = length (df_values df)"

definition df_shape1 :: "('c, 'v) dataframe \<Rightarrow> nat" where
  "df_shape1 df = length (df_columns df)"

section \<open>HierarchicalModel\<close>

text \<open>
  The attributes of a model object. \<open>model\<close> and \<open>results\<close> are \<open>None\<close> while the
  attribute does not exist (\<open>hasattr\<close> is false). \<open>unique_subject_ids\<close> is a
  1-dimensional array, kept as the list of its elements.
\<close>

record ('c, 'v, 's, 'm, 'r) hierarchical_model =
  X :: "('c, 'v) dataframe"
  subject_ids :: "'s ndarray"
  unique_subject_ids :: "'s list"
  n_subjects :: nat
  subj_idx :: "int ndarray"
  model :: "'m option"
  results :: "'r option"

text \<open>
  \<open>_get_subj_idx\<close>, on the object as \<open>__init__\<close> has filled it so far.
\<close>

definition get_subj_idx ::
  "('c, 'v, 's::linorder, 'm, 'r) hierarchical_model \<Rightarrow> ('c, 'v, 's, 'm, 'r) hierarchical_model" where
  "get_subj_idx self =
     (let u = np_sort (np_unique (subject_ids self))
      in self\<lparr>unique_subject_ids := u,
              n_subjects := length u,
              subj_idx := searchsorted u (subject_ids self)\<rparr>)"

text \<open>
  \<open>HierarchicalModel.__init__(X, subject_ids)\<close>. The first argument is the frame
  \<open>pd.DataFrame(X)\<close>, the second the array \<open>np.array(subject_ids)\<close>. The three
  attributes that \<open>_get_subj_idx\<close> assigns do not exist before it runs; the record holds
  empty values for them until then.
\<close>

definition init ::
  "('c, 'v) dataframe \<Rightarrow> ('s::linorder) ndarray \<Rightarrow> error + ('c, 'v, 's, 'm, 'r) hierarchical_model" where
  "init Xd ids =
     (let sq = squeeze ids
      in case shape0 sq of
           Inl e \<Rightarrow> Inl e
         | Inr d \<Rightarrow>
             if d \<noteq> df_shape0 Xd then Inl InputShapeError
             else Inr (get_subj_idx
                   \<lparr>X = Xd, subject_ids = sq, unique_subject_ids = [], n_subjects = 0,
                    subj_idx = \<lparr>shape = [], flat = []\<rparr>, model = None, results = None\<rparr>))"

text \<open>
  \<open>HierarchicalModel.sample(signal, chains)\<close>: the check of the signal's length. Every
  method is a function from the object to the outcome of the call (\<open>Inl\<close> the exception
  raised) and the object after the call.
\<close>

definition sample ::
  "('c, 'v, 's, 'm, 'r) hierarchical_model \<Rightarrow> 'v ndarray \<Rightarrow>
     (error + unit) \<times> ('c, 'v, 's, 'm, 'r) hierarchical_model" where
  "sample self signal =
     (let measure_sq = squeeze signal
      in case len measure_sq of
           Inl e \<Rightarrow> (Inl e, self)
         | Inr l \<Rightarrow>
             if l \<noteq> df_shape0 (X self) then (Inl SignalShapeError, self)
             else (Inr (), self))"

section \<open>HierarchicalStanModel\<close>

text \<open>
  The dictionary handed to the Stan backend, one field per key, and the two entries of
  the fit object that the accessors read.
\<close>

record 'v stan_data =
  d_measure :: "'v ndarray"
  d_subj_idx :: "int ndarray"
  d_n :: nat
  d_j :: nat
  d_m :: nat
  d_X :: "'v list list"

record 'v stanfit =
  beta_subject :: "'v ndarray"
  beta_group :: "'v ndarray"

text \<open>
  The compiled Stan model is the external sampling engine. It is known here by its
  \<open>sampling\<close> method only: data, \<open>chains\<close>, \<open>iter\<close> and the remaining options, to a fit
  or an exception. The options stand for everything else the call depends on, the random
  seed included, so two calls may well differ in their outcome.
\<close>

type_synonym ('v, 'o) stan_model = "'v stan_data \<Rightarrow> int \<Rightarrow> int \<Rightarrow> 'o \<Rightarrow> error + 'v stanfit"

type_synonym ('c, 'v, 's, 'o) stan_self =
  "('c, 'v, 's, ('v, 'o) stan_model, 'v stanfit) hierarchical_model"

text \<open>
  \<open>HierarchicalStanModel.__init__\<close>. The argument \<open>compiled\<close> is the outcome of loading
  the pickled model or compiling and caching it, which happens outside this program.
\<close>

definition stan_init ::
  "error + ('v, 'o) stan_model \<Rightarrow> ('c, 'v) dataframe \<Rightarrow> ('s::linorder) ndarray \<Rightarrow>
     error + ('c, 'v, 's, 'o) stan_self" where
  "stan_init compiled Xd ids =
     (case init Xd ids of
        Inl e \<Rightarrow> Inl e
      | Inr self \<Rightarrow>
          (case compiled of
             Inl e \<Rightarrow> Inl e
           | Inr mdl \<Rightarrow> Inr (self\<lparr>model := Some mdl\<rparr>)))"

text \<open>\<open>a + k\<close> for an array and a scalar adds \<open>k\<close> to every element.\<close>

definition add_scalar :: "int ndarray \<Rightarrow> int \<Rightarrow> int ndarray" where
  "add_scalar a k = a\<lparr>flat := map (\<lambda>x. x + k) (flat a)\<rparr>"

definition stan_data_of :: "('c, 'v, 's, 'm, 'r) hierarchical_model \<Rightarrow> 'v ndarray \<Rightarrow> 'v stan_data" where
  "stan_data_of self signal =
     \<lparr>d_measure = signal,
      d_subj_idx = add_scalar (subj_idx self) 1,
      d_n = df_shape0 (X self),
      d_j = n_subjects self,
      d_m = df_shape1 (X self),
      d_X = df_values (X self)\<rparr>"

text \<open>\<open>HierarchicalStanModel.sample(signal, chains, iter, *args, **kwargs)\<close>.\<close>

definition stan_sample ::
  "('c, 'v, 's, 'o) stan_self \<Rightarrow> 'v ndarray \<Rightarrow> int \<Rightarrow> int \<Rightarrow> 'o \<Rightarrow>
     (error + unit) \<times> ('c, 'v, 's, 'o) stan_self" where
  "stan_sample self signal n_chains iter opts =
     (case sample self signal of
        (Inl e, self1) \<Rightarrow> (Inl e, self1)
      | (Inr _, self1) \<Rightarrow>
          (let data = stan_data_of self1 signal
           in case model self1 of
                None \<Rightarrow> (Inl AttributeError, self1)
              | Some mdl \<Rightarrow>
                  (case mdl data n_chains iter opts of
                     Inl e \<Rightarrow> (Inl e, self1)
                   | Inr r \<Rightarrow> (Inr (), self1\<lparr>results := Some r\<rparr>))))"

subsection \<open>Reshaping the draws\<close>

text \<open>
  \<open>a.reshape(s)\<close> keeps the elements and needs the sizes to agree;
  \<open>pd.DataFrame(a, columns=cols)\<close> of a 2-dimensional array has one row per first index
  and needs as many labels as the array has columns (a 1-dimensional array is one
  column); \<open>pd.MultiIndex.from_product([A, B])\<close> lists the pairs with the first
  component varying slowest.
\<close>

definition reshape :: "'a ndarray \<Rightarrow> nat list \<Rightarrow> error + 'a ndarray" where
  "reshape a s = (if prod_list s = length (flat a) then Inr (a\<lparr>shape := s\<rparr>) else Inl ValueError)"

definition rows_of :: "nat \<Rightarrow> nat \<Rightarrow> 'a list \<Rightarrow> 'a list list" where
  "rows_of r c xs = map (\<lambda>i. take c (drop (i * c) xs)) [0..<r]"

definition pd_DataFrame :: "'v ndarray \<Rightarrow> 'k list \<Rightarrow> error + ('k, 'v) dataframe" where
  "pd_DataFrame a cols =
     (case shape a of
        [r] \<Rightarrow> if length cols = 1 then Inr \<lparr>df_columns = cols, df_values = rows_of r 1 (flat a)\<rparr>
               else Inl ValueError
      | [r, c] \<Rightarrow> if length cols = c then Inr \<lparr>df_columns = cols, df_values = rows_of r c (flat a)\<rparr>
                  else Inl ValueError
      | _ \<Rightarrow> Inl ValueError)"

definition from_product :: "'a list \<Rightarrow> 'b list \<Rightarrow> ('a \<times> 'b) list" where
  "from_product A B = concat (map (\<lambda>a. map (\<lambda>b. (a, b)) B) A)"

text \<open>
  \<open>pd.melt(df)\<close> without identifier columns: column after column, and within a column
  row after row, one long row holding the column's label and the cell's value.
\<close>

definition pd_melt :: "('k, 'v) dataframe \<Rightarrow> ('k \<times> 'v) list" where
  "pd_melt df =
     concat (map (\<lambda>k. map (\<lambda>row. (df_columns df ! k, row ! k)) (df_values df))
                 [0..<length (df_columns df)])"

datatype ('k, 'v) traces = Wide "('k, 'v) dataframe" | Melted "('k \<times> 'v) list"

text \<open>
  The body of \<open>get_subject_traces\<close> once \<open>results\<close> exists. \<open>np.prod(())\<close> of the empty
  tail of a 1-dimensional shape is the float \<open>1.0\<close>, which \<open>reshape\<close> refuses.
\<close>

definition subject_traces ::
  "('c, 'v, 's, 'm, 'r) hierarchical_model \<Rightarrow> 'v stanfit \<Rightarrow> bool \<Rightarrow> error + ('s \<times> 'c, 'v) traces" where
  "subject_traces self r melt =
     (case shape (beta_subject r) of
        [] \<Rightarrow> Inl IndexError
      | [d] \<Rightarrow> Inl TypeError
      | d # rest \<Rightarrow>
          (case reshape (beta_subject r) [d, prod_list rest] of
             Inl e \<Rightarrow> Inl e
           | Inr tr \<Rightarrow>
               (case pd_DataFrame tr (from_product (unique_subject_ids self) (df_columns (X self))) of
                  Inl e \<Rightarrow> Inl e
                | Inr df \<Rightarrow> Inr (if melt then Melted (pd_melt df) else Wide df))))"

definition get_subject_traces ::
  "('c, 'v, 's, 'm, 'v stanfit) hierarchical_model \<Rightarrow> bool \<Rightarrow>
     (error + ('s \<times> 'c, 'v) traces) \<times> ('c, 'v, 's, 'm, 'v stanfit) hierarchical_model" where
  "get_subject_traces self melt =
     (case results self of
        None \<Rightarrow> (Inl NotSampledError, self)
      | Some r \<Rightarrow> (subject_traces self r melt, self))"

definition get_group_traces ::
  "('c, 'v, 's, 'm, 'v stanfit) hierarchical_model \<Rightarrow> bool \<Rightarrow>
     (error + ('c, 'v) traces) \<times> ('c, 'v, 's, 'm, 'v stanfit) hierarchical_model" where
  "get_group_traces self melt =
     (case results self of
        None \<Rightarrow> (Inl NotSampledError, self)
      | Some r \<Rightarrow>
          (case pd_DataFrame (beta_group r) (df_columns (X self)) of
             Inl e \<Rightarrow> (Inl e, self)
           | Inr df \<Rightarrow> (Inr (if melt then Melted (pd_melt df) else Wide df), self)))"

definition get_group_parameters ::
  "('c, 'v, 's, 'm, 'r) hierarchical_model \<Rightarrow> (error + unit) \<times> ('c, 'v, 's, 'm, 'r) hierarchical_model" where
  "get_group_parameters self =
     (case results self of
        None \<Rightarrow> (Inl NotSampledError, self)
      | Some r \<Rightarrow> (Inr (), self))"

text \<open>A sequence of method calls on one Stan object, and the object after them.\<close>

datatype ('v, 'o) stan_call =
  Sample "'v ndarray" int int 'o | GetSubjectTraces bool | GetGroupTraces bool | GetGroupParameters

fun stan_do :: "('c, 'v, 's, 'o) stan_self \<Rightarrow> ('v, 'o) stan_call \<Rightarrow> ('c, 'v, 's, 'o) stan_self" where
  "stan_do self (Sample signal n_chains iter opts) = snd (stan_sample self signal n_chains iter opts)"
| "stan_do self (GetSubjectTraces melt) = snd (get_subject_traces self melt)"
| "stan_do self (GetGroupTraces melt) = snd (get_group_traces self melt)"
| "stan_do self GetGroupParameters = snd (get_group_parameters self)"

definition stan_run ::
  "('c, 'v, 's, 'o) stan_self \<Rightarrow> ('v, 'o) stan_call list \<Rightarrow> ('c, 'v, 's, 'o) stan_self" where
  "stan_run self calls = foldl stan_do self calls"

section \<open>HierarchicalPymc3Model\<close>

text \<open>
  \<open>pm.Model()\<close> gives a fresh model context; everything inside the \<open>with\<close> block, from
  the priors to \<open>pm.sample\<close>, is the external engine \<open>pm\<close>: it is given what the block
  reads (\<open>X\<close>, \<open>n_subjects\<close>, \<open>subj_idx\<close>, the signal, \<open>iter\<close>, \<open>chains\<close>, the options) and
  returns the trace or raises.
\<close>

type_synonym ('c, 'v, 'o, 'r) pymc3_engine =
  "('c, 'v) dataframe \<Rightarrow> nat \<Rightarrow> int ndarray \<Rightarrow> 'v ndarray \<Rightarrow> int \<Rightarrow> int \<Rightarrow> 'o \<Rightarrow> error + 'r"

definition pymc3_init ::
  "('c, 'v) dataframe \<Rightarrow> ('s::linorder) ndarray \<Rightarrow> error + ('c, 'v, 's, 'm, 'r) hierarchical_model" where
  "pymc3_init Xd ids = init Xd ids"

definition pymc3_sample ::
  "'m \<Rightarrow> ('c, 'v, 'o, 'r) pymc3_engine \<Rightarrow> ('c, 'v, 's, 'm, 'r) hierarchical_model \<Rightarrow>
     'v ndarray \<Rightarrow> int \<Rightarrow> int \<Rightarrow> 'o \<Rightarrow> (error + unit) \<times> ('c, 'v, 's, 'm, 'r) hierarchical_model" where
  "pymc3_sample pm_Model pm self signal n_chains iter opts =
     (let self1 = self\<lparr>model := Some pm_Model\<rparr>
      in case pm (X self1) (n_subjects self1) (subj_idx self1) signal iter n_chains opts of
           Inl e \<Rightarrow> (Inl e, self1)
         | Inr r \<Rightarrow> (Inr (), self1\<lparr>results := Some r\<rparr>))"

fun pymc3_do ::
  "'m \<Rightarrow> ('c, 'v, 'o, 'r) pymc3_engine \<Rightarrow> ('c, 'v, 's, 'm, 'r) hierarchical_model \<Rightarrow>
     'v ndarray \<times> int \<times> int \<times> 'o \<Rightarrow> ('c, 'v, 's, 'm, 'r) hierarchical_model" where
  "pymc3_do pm_Model pm self (signal, n_chains, iter, opts) =
     snd (pymc3_sample pm_Model pm self signal n_chains iter opts)"

definition pymc3_run ::
  "'m \<Rightarrow> ('c, 'v, 'o, 'r) pymc3_engine \<Rightarrow> ('c, 'v, 's, 'm, 'r) hierarchical_model \<Rightarrow>
     ('v ndarray \<times> int \<times> int \<times> 'o) list \<Rightarrow> ('c, 'v, 's, 'm, 'r) hierarchical_model" where
  "pymc3_run pm_Model pm self calls = foldl (pymc3_do pm_Model pm) self calls"

section \<open>Properties of an object and of a run\<close>

text \<open>
  Every entry of the subject index is a position in \<open>unique_subject_ids\<close>; and some
  \<open>sample\<close> call of a sequence of calls returned normally.
\<close>

definition subj_idx_in_range :: "('c, 'v, 's, 'm, 'r) hierarchical_model \<Rightarrow> bool" where
  "subj_idx_in_range self = (\<forall>k \<in> set (flat (subj_idx self)). 0 \<le> k \<and> k < int (n_subjects self))"

fun sample_succeeded :: "('c, 'v, 's, 'o) stan_self \<Rightarrow> ('v, 'o) stan_call list \<Rightarrow> bool" where
  "sample_succeeded self [] = False"
| "sample_succeeded self (c # cs) =
     ((case c of
         Sample signal n_chains iter opts \<Rightarrow> fst (stan_sample self signal n_chains iter opts) = Inr ()
       | _ \<Rightarrow> False)
      \<or> sample_succeeded (stan_do self c) cs)"

section \<open>Example objects\<close>

text \<open>
  The identifiers \<open>[5, 1, 5, 3, 1]\<close> with a design matrix of five observations and two
  predictors, and the object that construction yields for them; design matrices of one
  and of two observations.
\<close>

definition X5 :: "(string, int) dataframe" where
  "X5 = \<lparr>df_columns = [''a'', ''b''], df_values = [[1, 0], [0, 1], [1, 1], [2, 0], [0, 2]]\<rparr>"

definition X1 :: "(string, int) dataframe" where
  "X1 = \<lparr>df_columns = [''a'', ''b''], df_values = [[1, 0]]\<rparr>"

definition X2 :: "(string, int) dataframe" where
  "X2 = \<lparr>df_columns = [''a'', ''b''], df_values = [[1, 0], [0, 1]]\<rparr>"

definition ids5 :: "int ndarray" where
  "ids5 = np_array [5, 1, 5, 3, 1]"

definition self5 :: "(string, int, int, 'm, 'r) hierarchical_model" where
  "self5 = \<lparr>X = X5, subject_ids = ids5, unique_subject_ids = [1, 3, 5],
            n_subjects = 3, subj_idx = \<lparr>shape = [5], flat = [2, 0, 2, 1, 0]\<rparr>,
            model = None, results = None\<rparr>"

text \<open>
  A fit of two draws for three subjects and two predictors, a Stan engine that returns it
  and one that raises, the Stan objects built with them, a PyMC3 object, an engine that
  returns the signal it was given as its trace, and signals of five and of three elements.
\<close>

definition fit0 :: "int stanfit" where
  "fit0 = \<lparr>beta_subject = \<lparr>shape = [2, 3, 2], flat = [10, 11, 12, 13, 14, 15, 20, 21, 22, 23, 24, 25]\<rparr>,
           beta_group = \<lparr>shape = [2, 2], flat = [1, 2, 3, 4]\<rparr>\<rparr>"

definition engine_ok :: "(int, unit) stan_model" where
  "engine_ok data n_chains iter opts = Inr fit0"

definition engine_failing :: "(int, unit) stan_model" where
  "engine_failing data n_chains iter opts = Inl (BackendError ''sampling failed'')"

definition stan5_ok :: "(string, int, int, unit) stan_self" where
  "stan5_ok = self5\<lparr>model := Some engine_ok\<rparr>"

definition stan5_failing :: "(string, int, int, unit) stan_self" where
  "stan5_failing = self5\<lparr>model := Some engine_failing\<rparr>"

definition pymc5 :: "(string, int, int, unit, int ndarray) hierarchical_model" where
  "pymc5 = self5"

definition pm_echo :: "(string, int, unit, int ndarray) pymc3_engine" where
  "pm_echo Xd j idx signal iter n_chains opts = Inr signal"

definition signal5 :: "int ndarray" where
  "signal5 = np_array [2, -1, 1, 4, -2]"

definition signal3 :: "int ndarray" where
  "signal3 = np_array [2, -1, 1]"

text \<open>
  The Stan object after a successful \<open>sample\<close>, and the wide tables of its subject and
  group draws.
\<close>

definition stan5_sampled :: "(string, int, int, unit) stan_self" where
  "stan5_sampled = stan5_ok\<lparr>results := Some fit0\<rparr>"

definition wide5 :: "(int \<times> string, int) dataframe" where
  "wide5 = \<lparr>df_columns = [(1, ''a''), (1, ''b''), (3, ''a''), (3, ''b''), (5, ''a''), (5, ''b'')],
            df_values = [[10, 11, 12, 13, 14, 15], [20, 21, 22, 23, 24, 25]]\<rparr>"

definition group5 :: "(string, int) dataframe" where
  "group5 = \<lparr>df_columns = [''a'', ''b''], df_values = [[1, 2], [3, 4]]\<rparr>"

text \<open>
  Float identifiers: \<open>[nan, 1.0, nan]\<close> with a design matrix of three observations and
  the object that construction yields for them, and \<open>[5.0, 1.0, 5.0, 3.0, 1.0]\<close>.
\<close>

definition X3 :: "(string, int) dataframe" where
  "X3 = \<lparr>df_columns = [''a'', ''b''], df_values = [[1, 0], [0, 1], [1, 1]]\<rparr>"

definition ids_nan :: "int label ndarray" where
  "ids_nan = np_array [NaN, Val 1, NaN]"

definition self_nan :: "(string, int, int label, unit, unit) hierarchical_model" where
  "self_nan = \<lparr>X = X3, subject_ids = ids_nan, unique_subject_ids = [Val 1, NaN],
            n_subjects = 2, subj_idx = \<lparr>shape = [3], flat = [1, 0, 1]\<rparr>,
            model = None, results = None\<rparr>"

definition ids5v :: "int label ndarray" where
  "ids5v = np_array [Val 5, Val 1, Val 5, Val 3, Val 1]"

definition self5v :: "(string, int, int label, unit, unit) hierarchical_model" where
  "self5v = \<lparr>X = X5, subject_ids = ids5v, unique_subject_ids = [Val 1, Val 3, Val 5],
            n_subjects = 3, subj_idx = \<lparr>shape = [5], flat = [2, 0, 2, 1, 0]\<rparr>,
            model = None, results = None\<rparr>"

section \<open>The subject-index normalizer\<close>

declare binsearch_left.simps [simp del]

lemma binsearch_left_spec:
  "sorted a \<Longrightarrow> lo \<le> hi \<Longrightarrow> hi \<le> length a \<Longrightarrow>
   (\<forall>i<lo. a ! i < key) \<Longrightarrow> (\<forall>i. hi \<le> i \<and> i < length a \<longrightarrow> key \<le> a ! i) \<Longrightarrow>
   lo \<le> binsearch_left a key lo hi \<and> binsearch_left a key lo hi \<le> hi \<and>
   (\<forall>i<binsearch_left a key lo hi. a ! i < key) \<and>
   (\<forall>i. binsearch_left a key lo hi \<le> i \<and> i < length a \<longrightarrow> key \<le> a ! i)"
proof (induction a key lo hi rule: binsearch_left.induct)
  case (1 a key lo hi)
  show ?case
  proof (cases "lo < hi")
    case False
    then have "binsearch_left a key lo hi = lo" by (subst binsearch_left.simps) simp
    with False "1.prems" show ?thesis by auto
  next
    case True
    define mid where "mid = lo + (hi - lo) div 2"
    have mid: "lo \<le> mid" "mid < hi" using True by (auto simp: mid_def)
    show ?thesis
    proof (cases "a ! mid < key")
      case lt: True
      have below: "\<forall>i<mid + 1. a ! i < key"
      proof (intro allI impI)
        fix i assume "i < mid + 1"
        then have "i \<le> mid" by simp
        then have "a ! i \<le> a ! mid" using "1.prems"(1,3) mid by (auto intro: sorted_nth_mono)
        with lt show "a ! i < key" by simp
      qed
      have eq: "binsearch_left a key lo hi = binsearch_left a key (mid + 1) hi"
        using True lt by (subst binsearch_left.simps) (simp add: mid_def Let_def)
      have "mid + 1 \<le> binsearch_left a key (mid + 1) hi \<and> binsearch_left a key (mid + 1) hi \<le> hi \<and>
        (\<forall>i<binsearch_left a key (mid + 1) hi. a ! i < key) \<and>
        (\<forall>i. binsearch_left a key (mid + 1) hi \<le> i \<and> i < length a \<longrightarrow> key \<le> a ! i)"
        using "1.IH"(1)[OF True mid_def lt "1.prems"(1) _ "1.prems"(3) below "1.prems"(5)] mid by simp
      with eq mid show ?thesis by auto
    next
      case ge: False
      have above: "\<forall>i. mid \<le> i \<and> i < length a \<longrightarrow> key \<le> a ! i"
      proof (intro allI impI)
        fix i assume "mid \<le> i \<and> i < length a"
        then have "a ! mid \<le> a ! i" using "1.prems"(1) by (auto intro: sorted_nth_mono)
        with ge show "key \<le> a ! i" by simp
      qed
      have eq: "binsearch_left a key lo hi = binsearch_left a key lo mid"
        using True ge by (subst binsearch_left.simps) (simp add: mid_def Let_def)
      have "lo \<le> binsearch_left a key lo mid \<and> binsearch_left a key lo mid \<le> mid \<and>
        (\<forall>i<binsearch_left a key lo mid. a ! i < key) \<and>
        (\<forall>i. binsearch_left a key lo mid \<le> i \<and> i < length a \<longrightarrow> key \<le> a ! i)"
        using "1.IH"(2)[OF True mid_def ge "1.prems"(1) mid(1) _ "1.prems"(4) above] mid "1.prems"(3) by simp
      with eq mid show ?thesis by auto
    qed
  qed
qed

lemma binsearch_left_member:
  assumes "sorted a" and "key \<in> set a"
  shows "binsearch_left a key 0 (length a) < length a \<and> a ! binsearch_left a key 0 (length a) = key"
proof -
  let ?r = "binsearch_left a key 0 (length a)"
  have sp: "?r \<le> length a" "\<forall>i<?r. a ! i < key" "\<forall>i. ?r \<le> i \<and> i < length a \<longrightarrow> key \<le> a ! i"
  proof -
    have "\<forall>i. length a \<le> i \<and> i < length a \<longrightarrow> key \<le> a ! i" by auto
    then have "0 \<le> ?r \<and> ?r \<le> length a \<and> (\<forall>i<?r. a ! i < key) \<and>
      (\<forall>i. ?r \<le> i \<and> i < length a \<longrightarrow> key \<le> a ! i)"
      by (intro binsearch_left_spec assms(1)) simp_all
    then show "?r \<le> length a" "\<forall>i<?r. a ! i < key" "\<forall>i. ?r \<le> i \<and> i < length a \<longrightarrow> key \<le> a ! i"
      by blast+
  qed
  from assms(2) obtain k where k: "k < length a" "a ! k = key" by (auto simp: in_set_conv_nth)
  have "\<not> k < ?r" using sp(2) k by auto
  then have rk: "?r \<le> k" by simp
  then have lt: "?r < length a" using k by simp
  have "key \<le> a ! ?r" using sp(3) lt by simp
  moreover have "a ! ?r \<le> a ! k" using assms(1) rk k by (auto intro: sorted_nth_mono)
  ultimately show ?thesis using lt k by simp
qed

lemma distinct_remdups_adj_sorted: "sorted xs \<Longrightarrow> distinct (remdups_adj xs)"
  by (induction xs rule: remdups_adj.induct) (auto)

lemma np_unique_props:
  "sorted (np_unique a)" "distinct (np_unique a)" "set (np_unique a) = set (flat a)"
  by (simp_all add: np_unique_def distinct_remdups_adj_sorted)

lemma np_sort_np_unique: "np_sort (np_unique a) = np_unique a"
  by (simp add: np_sort_def np_unique_props(1) sort_key_id_if_sorted)

lemma length_np_unique: "length (np_unique a) = card (set (flat a))"
  using distinct_card [OF np_unique_props(2), of a] by (simp add: np_unique_props(3))

lemma flat_squeeze [simp]: "flat (squeeze a) = flat a"
  by (simp add: squeeze_def)

lemma np_unique_squeeze [simp]: "np_unique (squeeze a) = np_unique a"
  by (simp add: np_unique_def)

lemma init_Inr:
  assumes "init Xd ids = Inr self"
  shows "shape0 (squeeze ids) = Inr (df_shape0 Xd)"
    and "self = \<lparr>X = Xd, subject_ids = squeeze ids, unique_subject_ids = np_unique ids,
            n_subjects = card (set (flat ids)),
            subj_idx = searchsorted (np_unique ids) (squeeze ids), model = None, results = None\<rparr>"
  using assms
  by (auto simp: init_def Let_def get_subj_idx_def np_sort_np_unique length_np_unique
      split: sum.splits if_splits)

lemma searchsorted_np_unique:
  assumes "i < length (flat v)" and "set (flat v) \<subseteq> set (flat a)"
  shows "0 \<le> flat (searchsorted (np_unique a) v) ! i"
    and "nat (flat (searchsorted (np_unique a) v) ! i) < length (np_unique a)"
    and "np_unique a ! nat (flat (searchsorted (np_unique a) v) ! i) = flat v ! i"
proof -
  have "flat v ! i \<in> set (np_unique a)"
    using assms by (auto simp: np_unique_props(3))
  from binsearch_left_member [OF np_unique_props(1) this]
  show "0 \<le> flat (searchsorted (np_unique a) v) ! i"
    and "nat (flat (searchsorted (np_unique a) v) ! i) < length (np_unique a)"
    and "np_unique a ! nat (flat (searchsorted (np_unique a) v) ! i) = flat v ! i"
    using assms(1) by (simp_all add: searchsorted_def)
qed

lemma init_X5: "init X5 ids5 = Inr self5"
  by (simp add: init_def squeeze_def shape0_def get_subj_idx_def np_unique_def np_sort_def
      searchsorted_def binsearch_left.simps X5_def ids5_def self5_def np_array_def df_shape0_def)

text \<open>
  In the order numpy sorts by, and with identity of the stored values: the unique
  identifiers are strictly ascending and distinct, and every index is the position of its
  identifier.
\<close>

lemma init_normalizer:
  assumes "init Xd ids = Inr (self :: ('c, 'v, 's::linorder, 'm, 'r) hierarchical_model)"
  shows "sorted_wrt (<) (unique_subject_ids self) \<and> distinct (unique_subject_ids self) \<and>
         flat (subject_ids self) = flat ids \<and>
         length (flat (subj_idx self)) = length (flat (subject_ids self)) \<and>
         (\<forall>i < length (flat (subject_ids self)).
            0 \<le> flat (subj_idx self) ! i \<and>
            nat (flat (subj_idx self) ! i) < length (unique_subject_ids self) \<and>
            unique_subject_ids self ! nat (flat (subj_idx self) ! i) = flat (subject_ids self) ! i)"
proof -
  note s = init_Inr(2) [OF assms]
  have u: "unique_subject_ids self = np_unique ids"
    and i: "subj_idx self = searchsorted (np_unique ids) (squeeze ids)"
    and f: "flat (subject_ids self) = flat ids"
    by (simp_all add: s)
  have "sorted_wrt (<) (np_unique ids)"
    by (simp add: strict_sorted_iff np_unique_props)
  moreover have "length (flat (searchsorted (np_unique ids) (squeeze ids))) = length (flat ids)"
    by (simp add: searchsorted_def)
  moreover have "\<forall>i < length (flat ids).
            0 \<le> flat (searchsorted (np_unique ids) (squeeze ids)) ! i \<and>
            nat (flat (searchsorted (np_unique ids) (squeeze ids)) ! i) < length (np_unique ids) \<and>
            np_unique ids ! nat (flat (searchsorted (np_unique ids) (squeeze ids)) ! i) = flat ids ! i"
    using searchsorted_np_unique [of _ "squeeze ids" ids] by simp
  ultimately show ?thesis
    by (simp add: u i f np_unique_props(2))
qed

lemma py_eq_refl: "x \<noteq> NaN \<Longrightarrow> py_eq x x"
  by (cases x) auto

lemma py_lt_iff: "x \<noteq> NaN \<Longrightarrow> y \<noteq> NaN \<Longrightarrow> py_lt x y = (x < y)"
  by (cases x; cases y) auto

lemma unique_from_remdups_adj:
  "NaN \<notin> set (x # xs) \<Longrightarrow> x # unique_from x xs = remdups_adj (x # xs)"
proof (induction xs arbitrary: x)
  case Nil
  then show ?case by simp
next
  case (Cons y ys)
  then have xy: "x \<noteq> NaN" "y \<noteq> NaN" and ih: "y # unique_from y ys = remdups_adj (y # ys)"
    by auto
  show ?case
  proof (cases "x = y")
    case True
    with xy ih show ?thesis by (simp add: py_eq_refl)
  next
    case False
    then have "\<not> py_eq y x" by (cases x; cases y) auto
    with False ih show ?thesis by simp
  qed
qed

lemma np_unique_legacy_eq:
  "NaN \<notin> set (flat a) \<Longrightarrow> np_unique_legacy a = np_unique a"
proof -
  assume n: "NaN \<notin> set (flat a)"
  show ?thesis
  proof (cases "sort (flat a)")
    case Nil
    then show ?thesis by (simp add: np_unique_legacy_def np_unique_def)
  next
    case (Cons x xs)
    have "set (x # xs) = set (flat a)" using Cons [symmetric] by simp
    with n have "NaN \<notin> set (x # xs)" by simp
    from unique_from_remdups_adj [OF this] Cons show ?thesis
      by (simp add: np_unique_legacy_def np_unique_def)
  qed
qed

lemma init_nan: "init X3 ids_nan = Inr self_nan"
  by (simp add: init_def squeeze_def shape0_def get_subj_idx_def np_unique_def np_sort_def
      searchsorted_def binsearch_left.simps X3_def ids_nan_def self_nan_def np_array_def df_shape0_def
      Let_def)

lemma init_X5v: "init X5 ids5v = Inr self5v"
  by (simp add: init_def squeeze_def shape0_def get_subj_idx_def np_unique_def np_sort_def
      searchsorted_def binsearch_left.simps X5_def ids5v_def self5v_def np_array_def df_shape0_def
      Let_def)

lemma legacy_nan: "np_unique_legacy ids_nan = [Val 1, NaN, NaN]"
  by (simp add: np_unique_legacy_def ids_nan_def np_array_def)

lemma sorted_wrt_py_lt:
  assumes "sorted_wrt (<) u" and "NaN \<notin> set u"
  shows "sorted_wrt py_lt u"
proof (rule sorted_wrt_mono_rel [OF _ assms(1)])
  fix x y assume "x \<in> set u" "y \<in> set u" "x < y"
  with assms(2) have "x \<noteq> NaN" "y \<noteq> NaN" by auto
  with \<open>x < y\<close> show "py_lt x y" by (simp add: py_lt_iff)
qed

text \<open>
  C1, as the code has it. For identifiers accepted at construction that contain no NaN,
  \<open>unique_subject_ids\<close> is strictly ascending by Python's \<open><\<close> and free of duplicates, the
  index array has one entry per identifier, every index is a valid position, and
  \<open>unique_subject_ids[subj_idx[i]] == subject_ids[i]\<close> holds for every observation \<open>i\<close>.
\<close>

theorem normalizer_without_nan:
  assumes "init Xd ids = Inr (self :: ('c, 'v, ('s::linorder) label, 'm, 'r) hierarchical_model)"
    and "NaN \<notin> set (flat ids)"
  shows "sorted_wrt py_lt (unique_subject_ids self) \<and> distinct (unique_subject_ids self) \<and>
         flat (subject_ids self) = flat ids \<and>
         length (flat (subj_idx self)) = length (flat (subject_ids self)) \<and>
         (\<forall>i < length (flat (subject_ids self)).
            0 \<le> flat (subj_idx self) ! i \<and>
            nat (flat (subj_idx self) ! i) < length (unique_subject_ids self) \<and>
            py_eq (unique_subject_ids self ! nat (flat (subj_idx self) ! i))
                  (flat (subject_ids self) ! i))"
proof -
  note g = init_normalizer [OF assms(1)]
  have "set (unique_subject_ids self) = set (flat ids)"
    by (simp add: init_Inr(2) [OF assms(1)] np_unique_props(3))
  with assms(2) have "NaN \<notin> set (unique_subject_ids self)" by simp
  with g have s: "sorted_wrt py_lt (unique_subject_ids self)"
    by (simp add: sorted_wrt_py_lt)
  have "\<forall>i < length (flat (subject_ids self)).
          py_eq (unique_subject_ids self ! nat (flat (subj_idx self) ! i))
                (flat (subject_ids self) ! i)"
  proof (intro allI impI)
    fix i assume i: "i < length (flat (subject_ids self))"
    with g assms(2) have "flat (subject_ids self) ! i \<noteq> NaN"
      by (metis nth_mem)
    moreover from g i have "unique_subject_ids self ! nat (flat (subj_idx self) ! i) = flat (subject_ids self) ! i"
      by blast
    ultimately show "py_eq (unique_subject_ids self ! nat (flat (subj_idx self) ! i))
                (flat (subject_ids self) ! i)"
      by (simp add: py_eq_refl)
  qed
  with g s show ?thesis by blast
qed

theorem normalizer_without_nan_witness:
  "init X5 ids5v = Inr self5v \<and> NaN \<notin> set (flat ids5v) \<and>
   sorted_wrt py_lt (unique_subject_ids self5v) \<and>
   distinct (unique_subject_ids self5v) \<and>
   py_eq (unique_subject_ids self5v ! nat (flat (subj_idx self5v) ! 3)) (flat (subject_ids self5v) ! 3)"
proof -
  have n: "NaN \<notin> set (flat ids5v)"
    by (simp add: ids5v_def np_array_def)
  have k: "(3::nat) < length (flat (subject_ids self5v))"
    by (simp add: self5v_def ids5v_def np_array_def)
  show ?thesis
    using init_X5v n k normalizer_without_nan [OF init_X5v n] by blast
qed

text \<open>
  C1 as stated fails. The float identifiers \<open>[nan, 1.0, nan]\<close> are accepted with three
  rows; the unique identifiers are \<open>[1.0, nan]\<close> and the index is \<open>[1, 0, 1]\<close>, so for the
  first observation the lookup yields NaN, which is not \<open>==\<close> to the identifier NaN, and
  \<open>1.0 < nan\<close> is false, so the unique identifiers are not strictly ascending.
\<close>

theorem nan_identifier_counterexample:
  "init X3 ids_nan = Inr self_nan \<and>
   flat (subject_ids self_nan) ! 0 = NaN \<and>
   flat (subj_idx self_nan) ! 0 = 1 \<and>
   unique_subject_ids self_nan ! 1 = NaN \<and>
   \<not> py_eq (unique_subject_ids self_nan ! nat (flat (subj_idx self_nan) ! 0))
            (flat (subject_ids self_nan) ! 0) \<and>
   unique_subject_ids self_nan = [Val 1, NaN] \<and>
   \<not> py_lt (Val 1) (NaN :: int label) \<and>
   \<not> sorted_wrt py_lt (unique_subject_ids self_nan)"
proof -
  have "flat (subject_ids self_nan) ! 0 = NaN" "flat (subj_idx self_nan) ! 0 = 1"
    "unique_subject_ids self_nan ! 1 = NaN" "unique_subject_ids self_nan = [Val 1, NaN]"
    by (simp_all add: self_nan_def ids_nan_def np_array_def)
  moreover have "\<not> py_eq (unique_subject_ids self_nan ! nat (flat (subj_idx self_nan) ! 0))
            (flat (subject_ids self_nan) ! 0)"
    by (simp add: self_nan_def ids_nan_def np_array_def)
  moreover have "\<not> py_lt (Val 1) (NaN :: int label)" by simp
  moreover have "\<not> sorted_wrt py_lt (unique_subject_ids self_nan)"
    by (simp add: self_nan_def)
  ultimately show ?thesis using init_nan by blast
qed

text \<open>
  With the \<open>np.unique\<close> of numpy before 1.21 the same identifiers give the unique
  identifiers \<open>[1.0, nan, nan]\<close> and the same index, and the lookup fails in the same way.
\<close>

lemma legacy_nan_lookup:
  "np_unique_legacy ids_nan = [Val 1, NaN, NaN] \<and>
   flat (searchsorted (np_unique_legacy ids_nan) ids_nan) = [1, 0, 1] \<and>
   \<not> py_eq (np_unique_legacy ids_nan ! 1) (flat ids_nan ! 0)"
  unfolding legacy_nan
  by (simp add: searchsorted_def binsearch_left.simps ids_nan_def np_array_def)

section \<open>Construction\<close>

lemma squeeze_np_array:
  "squeeze (np_array xs) = \<lparr>shape = (if length xs = 1 then [] else [length xs]), flat = xs\<rparr>"
  by (simp add: squeeze_def np_array_def)

lemma shape0_squeeze_ne_1: "shape0 (squeeze a) \<noteq> Inr (Suc 0)"
proof (cases "filter (\<lambda>d. d \<noteq> Suc 0) (shape a)")
  case Nil
  then show ?thesis by (simp add: shape0_def squeeze_def)
next
  case (Cons d ds)
  then have "d \<in> set (filter (\<lambda>d. d \<noteq> Suc 0) (shape a))" by simp
  then have "d \<noteq> Suc 0" by simp
  with Cons show ?thesis by (simp add: shape0_def squeeze_def)
qed

lemma init_one_row_fails: "df_shape0 Xd = 1 \<Longrightarrow> init Xd ids \<noteq> Inr self"
  using shape0_squeeze_ne_1 [of ids] init_Inr(1) [of Xd ids self] by auto

text \<open>
  C10. A sequence of exactly one identifier is squeezed to a 0-dimensional array, whose
  \<open>shape[0]\<close> raises \<open>IndexError\<close>, whatever the design matrix; and no identifier array
  at all is accepted with a design matrix of exactly one row.
\<close>

theorem single_identifier_never_constructs:
  "init Xd (np_array [a]) = (Inl IndexError :: error + ('c, 'v, 's::linorder, 'm, 'r) hierarchical_model) \<and>
   (df_shape0 Xd = 1 \<longrightarrow>
      (\<forall>ids self. init Xd ids \<noteq> Inr (self :: ('c, 'v, 's, 'm, 'r) hierarchical_model)))"
proof (intro conjI impI allI)
  show "init Xd (np_array [a]) = (Inl IndexError :: error + ('c, 'v, 's, 'm, 'r) hierarchical_model)"
    by (simp add: init_def squeeze_np_array shape0_def)
qed (rule init_one_row_fails)

theorem single_identifier_never_constructs_witness:
  "df_shape0 X1 = 1 \<and>
   init X1 (np_array [7 :: int]) = (Inl IndexError :: error + (string, int, int, unit, unit) hierarchical_model) \<and>
   (\<forall>ids self. init X1 (ids :: int ndarray) \<noteq> Inr (self :: (string, int, int, unit, unit) hierarchical_model))"
proof -
  have h: "df_shape0 X1 = 1" by (simp add: X1_def df_shape0_def)
  show ?thesis
    using h single_identifier_never_constructs [where ?'m = unit and ?'r = unit, of X1 "7 :: int"]
    by blast
qed

text \<open>
  C3, as the code has it. A sequence of identifiers whose length is not one and differs
  from the number of rows is refused with the exception of the shape check, whose message
  is one fixed text: it names neither count.
\<close>

theorem mismatched_lengths_rejected:
  assumes "length xs \<noteq> 1" and "length xs \<noteq> df_shape0 Xd"
  shows "init Xd (np_array xs) = (Inl InputShapeError :: error + ('c, 'v, 's::linorder, 'm, 'r) hierarchical_model) \<and>
         InputShapeError =
           Exception ''Number of subjects indices shouldcorrespond to number of rows in thedesign matrices.''"
  using assms by (simp add: init_def squeeze_np_array shape0_def InputShapeError_def)

theorem mismatched_lengths_rejected_witness:
  "length [1, 2, 3 :: int] \<noteq> 1 \<and> length [1, 2, 3 :: int] \<noteq> df_shape0 X5 \<and>
   init X5 (np_array [1, 2, 3 :: int]) = (Inl InputShapeError :: error + (string, int, int, unit, unit) hierarchical_model)"
proof -
  have h1: "length [1, 2, 3 :: int] \<noteq> 1" by simp
  have h2: "length [1, 2, 3 :: int] \<noteq> df_shape0 X5" by (simp add: X5_def df_shape0_def)
  show ?thesis
    using h1 h2 mismatched_lengths_rejected [where ?'m = unit and ?'r = unit, OF h1 h2] by blast
qed

text \<open>
  C3 as stated fails. One identifier against two rows is a mismatched pair of nonzero
  lengths, and construction raises \<open>IndexError\<close>, not the exception of the shape check;
  and the pairs (3 identifiers, 2 rows) and (4 identifiers, 5 rows) raise the very same
  exception, which therefore names no counts.
\<close>

theorem one_identifier_is_IndexError_counterexample:
  "length [7 :: int] \<noteq> df_shape0 X2 \<and>
   init X2 (np_array [7 :: int]) = (Inl IndexError :: error + (string, int, int, unit, unit) hierarchical_model) \<and>
   init X2 (np_array [7 :: int]) \<noteq> (Inl InputShapeError :: error + (string, int, int, unit, unit) hierarchical_model) \<and>
   init X2 (np_array [1, 2, 3 :: int]) =
     (init X5 (np_array [1, 2, 3, 4 :: int]) :: error + (string, int, int, unit, unit) hierarchical_model)"
  by (simp add: init_def squeeze_np_array shape0_def InputShapeError_def X2_def X5_def df_shape0_def)

section \<open>Sampling\<close>

lemma sample_self [simp]: "snd (sample self signal) = self"
  by (simp add: sample_def Let_def split: sum.splits)

lemma sample_cases:
  "sample self signal = (Inl TypeError, self) \<and> shape (squeeze signal) = [] \<or>
   sample self signal = (Inl SignalShapeError, self) \<and> (\<exists>d ds. shape (squeeze signal) = d # ds \<and> d \<noteq> df_shape0 (X self)) \<or>
   sample self signal = (Inr (), self) \<and> (\<exists>ds. shape (squeeze signal) = df_shape0 (X self) # ds)"
  by (cases "shape (squeeze signal)") (simp_all add: sample_def len_def)

lemma stan_sample_frame:
  "X (snd (stan_sample self signal n_chains iter opts)) = X self"
  "subject_ids (snd (stan_sample self signal n_chains iter opts)) = subject_ids self"
  "unique_subject_ids (snd (stan_sample self signal n_chains iter opts)) = unique_subject_ids self"
  "n_subjects (snd (stan_sample self signal n_chains iter opts)) = n_subjects self"
  "subj_idx (snd (stan_sample self signal n_chains iter opts)) = subj_idx self"
  "model (snd (stan_sample self signal n_chains iter opts)) = model self"
  using sample_cases [of self signal]
  by (auto simp: stan_sample_def Let_def split: sum.splits option.splits)

lemma accessors_self [simp]:
  "snd (get_subject_traces self melt) = self"
  "snd (get_group_traces self melt) = self"
  "snd (get_group_parameters self) = self"
  by (simp_all add: get_subject_traces_def get_group_traces_def get_group_parameters_def
      split: option.splits sum.splits)

lemma stan_do_frame:
  "X (stan_do self c) = X self"
  "subject_ids (stan_do self c) = subject_ids self"
  "unique_subject_ids (stan_do self c) = unique_subject_ids self"
  "n_subjects (stan_do self c) = n_subjects self"
  "subj_idx (stan_do self c) = subj_idx self"
  "model (stan_do self c) = model self"
  by (cases c; simp add: stan_sample_frame)+

lemma stan_run_frame:
  "X (stan_run self cs) = X self \<and>
   subject_ids (stan_run self cs) = subject_ids self \<and>
   unique_subject_ids (stan_run self cs) = unique_subject_ids self \<and>
   n_subjects (stan_run self cs) = n_subjects self \<and>
   subj_idx (stan_run self cs) = subj_idx self \<and>
   model (stan_run self cs) = model self"
  unfolding stan_run_def
  by (induction cs arbitrary: self) (simp_all add: stan_do_frame)

lemma pymc3_sample_frame:
  "X (snd (pymc3_sample pm_Model pm self signal n_chains iter opts)) = X self"
  "subject_ids (snd (pymc3_sample pm_Model pm self signal n_chains iter opts)) = subject_ids self"
  "unique_subject_ids (snd (pymc3_sample pm_Model pm self signal n_chains iter opts)) = unique_subject_ids self"
  "n_subjects (snd (pymc3_sample pm_Model pm self signal n_chains iter opts)) = n_subjects self"
  "subj_idx (snd (pymc3_sample pm_Model pm self signal n_chains iter opts)) = subj_idx self"
  by (simp_all add: pymc3_sample_def Let_def split: sum.splits)

lemma pymc3_run_frame:
  "X (pymc3_run pm_Model pm self cs) = X self \<and>
   subject_ids (pymc3_run pm_Model pm self cs) = subject_ids self \<and>
   unique_subject_ids (pymc3_run pm_Model pm self cs) = unique_subject_ids self \<and>
   n_subjects (pymc3_run pm_Model pm self cs) = n_subjects self \<and>
   subj_idx (pymc3_run pm_Model pm self cs) = subj_idx self"
  unfolding pymc3_run_def
  by (induction cs arbitrary: self) (auto simp: pymc3_sample_frame)

text \<open>
  C9. Whatever sequence of \<open>sample\<close> and accessor calls is made on a Stan object, and
  whatever sequence of \<open>sample\<close> calls on a PyMC3 object, the design matrix, the subject
  identifiers, the sorted unique identifiers, the subject count and the subject index of
  the object are afterwards what they were before.
\<close>

theorem construction_values_are_kept:
  "X (stan_run self cs) = X self \<and>
   subject_ids (stan_run self cs) = subject_ids self \<and>
   unique_subject_ids (stan_run self cs) = unique_subject_ids self \<and>
   n_subjects (stan_run self cs) = n_subjects self \<and>
   subj_idx (stan_run self cs) = subj_idx self \<and>
   X (pymc3_run pm_Model pm self' cs') = X self' \<and>
   subject_ids (pymc3_run pm_Model pm self' cs') = subject_ids self' \<and>
   unique_subject_ids (pymc3_run pm_Model pm self' cs') = unique_subject_ids self' \<and>
   n_subjects (pymc3_run pm_Model pm self' cs') = n_subjects self' \<and>
   subj_idx (pymc3_run pm_Model pm self' cs') = subj_idx self'"
  using stan_run_frame [of self cs] pymc3_run_frame [of pm_Model pm self' cs'] by simp

lemma init_subj_idx_in_range:
  assumes "init Xd ids = Inr self"
  shows "subj_idx_in_range self"
  unfolding subj_idx_in_range_def
proof
  fix k assume "k \<in> set (flat (subj_idx self))"
  then have "k \<in> set (flat (searchsorted (np_unique ids) (squeeze ids)))"
    by (simp add: init_Inr(2) [OF assms])
  then obtain i where i: "i < length (flat (squeeze ids))"
      "flat (searchsorted (np_unique ids) (squeeze ids)) ! i = k"
    by (auto simp: in_set_conv_nth searchsorted_def)
  have "0 \<le> k \<and> nat k < length (np_unique ids)"
    using searchsorted_np_unique(1,2) [of i "squeeze ids" ids] i by simp
  moreover have "length (np_unique ids) = n_subjects self"
    by (simp add: init_Inr(2) [OF assms] length_np_unique)
  ultimately show "0 \<le> k \<and> k < int (n_subjects self)" by auto
qed

lemma stan_init_Inr:
  assumes "stan_init compiled Xd ids = Inr s"
  shows "\<exists>self mdl. init Xd ids = Inr self \<and> compiled = Inr mdl \<and> s = self\<lparr>model := Some mdl\<rparr>"
  using assms by (auto simp: stan_init_def split: sum.splits)

lemma stan_init_X5: "stan_init (Inr mdl) X5 ids5 = Inr (self5\<lparr>model := Some mdl\<rparr>)"
  by (simp add: stan_init_def init_X5)

lemma stan_init_stan5:
  "stan_init (Inr engine_ok) X5 ids5 = Inr stan5_ok"
  "stan_init (Inr engine_failing) X5 ids5 = Inr stan5_failing"
  by (simp_all add: stan_init_X5 stan5_ok_def stan5_failing_def)

text \<open>
  C7. Construction yields a subject count equal to the number of distinct identifiers and
  an index with one entry per identifier, each at least 0 and below the subject count; and
  the bound still holds after any sequence of calls on a Stan or a PyMC3 object.
\<close>

theorem subj_idx_within_subject_count:
  "(init Xd ids = Inr (self :: ('c, 'v, 's::linorder, 'm, 'r) hierarchical_model) \<longrightarrow>
      n_subjects self = card (set (flat ids)) \<and>
      length (flat (subj_idx self)) = length (flat ids) \<and>
      subj_idx_in_range self) \<and>
   (stan_init compiled Xd ids = Inr (s :: ('c, 'v, 's, 'o) stan_self) \<longrightarrow>
      subj_idx_in_range (stan_run s cs)) \<and>
   (pymc3_init Xd ids = Inr (p :: ('c, 'v, 's, 'm2, 'r2) hierarchical_model) \<longrightarrow>
      subj_idx_in_range (pymc3_run pm_Model pm p pcs))"
proof (intro conjI impI)
  assume a: "init Xd ids = Inr self"
  show "n_subjects self = card (set (flat ids))"
    by (simp add: init_Inr(2) [OF a])
  show "length (flat (subj_idx self)) = length (flat ids)"
    by (simp add: init_Inr(2) [OF a] searchsorted_def)
  show "subj_idx_in_range self"
    by (rule init_subj_idx_in_range [OF a])
next
  assume "stan_init compiled Xd ids = Inr s"
  then obtain self0 mdl where i: "init Xd ids = Inr self0" and s: "s = self0\<lparr>model := Some mdl\<rparr>"
    using stan_init_Inr by blast
  have "subj_idx_in_range s"
    using init_subj_idx_in_range [OF i] by (simp add: s subj_idx_in_range_def)
  then show "subj_idx_in_range (stan_run s cs)"
    using stan_run_frame [of s cs] by (simp add: subj_idx_in_range_def)
next
  assume "pymc3_init Xd ids = Inr p"
  then have "subj_idx_in_range p"
    by (simp add: pymc3_init_def init_subj_idx_in_range)
  then show "subj_idx_in_range (pymc3_run pm_Model pm p pcs)"
    using pymc3_run_frame [of pm_Model pm p pcs] by (simp add: subj_idx_in_range_def)
qed

theorem subj_idx_within_subject_count_witness:
  "init X5 ids5 = Inr pymc5 \<and>
   stan_init (Inr engine_ok) X5 ids5 = Inr stan5_ok \<and>
   pymc3_init X5 ids5 = Inr pymc5 \<and>
   n_subjects pymc5 = card (set (flat ids5)) \<and>
   subj_idx_in_range pymc5 \<and>
   subj_idx_in_range (stan_run stan5_ok
      [Sample signal5 1 1000 (), GetSubjectTraces False, Sample signal3 1 1000 ()]) \<and>
   subj_idx_in_range (pymc3_run () pm_echo pymc5 [(signal3, 1, 1000, ()), (signal5, 2, 500, ())])"
proof -
  have h1: "init X5 ids5 = Inr pymc5"
    by (simp add: pymc5_def init_X5)
  have h3: "pymc3_init X5 ids5 = Inr pymc5"
    by (simp add: pymc3_init_def h1)
  show ?thesis
    using h1 stan_init_stan5(1) h3
      subj_idx_within_subject_count [of X5 ids5 pymc5 "Inr engine_ok" stan5_ok
        "[Sample signal5 1 1000 (), GetSubjectTraces False, Sample signal3 1 1000 ()]"
        pymc5 "()" pm_echo "[(signal3, 1, 1000, ()), (signal5, 2, 500, ())]"]
    by blast
qed

lemma flat_add_scalar: "flat (add_scalar a k) = map (\<lambda>x. x + k) (flat a)"
  by (simp add: add_scalar_def)

text \<open>
  C8. For a constructed Stan object the data dictionary holds the subject index with 1
  added to every entry, so that every entry lies between 1 and \<open>j\<close>; \<open>n\<close> is the row
  count of X, \<open>j\<close> the number of distinct identifiers, \<open>m\<close> the column count of X, \<open>X\<close>
  the rows and \<open>measure\<close> the signal; and when the signal passes the length check, the
  outcome of \<open>sample\<close> is that of the compiled model's \<open>sampling\<close> on this dictionary.
\<close>

theorem stan_data_is_one_based:
  assumes "stan_init compiled Xd ids = Inr (self :: ('c, 'v, 's::linorder, 'o) stan_self)"
  shows "flat (d_subj_idx (stan_data_of self signal)) = map (\<lambda>k. k + 1) (flat (subj_idx self)) \<and>
         shape (d_subj_idx (stan_data_of self signal)) = shape (subj_idx self) \<and>
         (\<forall>k \<in> set (flat (d_subj_idx (stan_data_of self signal))).
             1 \<le> k \<and> k \<le> int (d_j (stan_data_of self signal))) \<and>
         d_n (stan_data_of self signal) = df_shape0 Xd \<and>
         d_j (stan_data_of self signal) = card (set (flat ids)) \<and>
         d_m (stan_data_of self signal) = df_shape1 Xd \<and>
         d_X (stan_data_of self signal) = df_values Xd \<and>
         d_measure (stan_data_of self signal) = signal \<and>
         (fst (sample self signal) = Inr () \<longrightarrow>
            (\<exists>mdl. compiled = Inr mdl \<and>
               stan_sample self signal n_chains iter opts =
                 (case mdl (stan_data_of self signal) n_chains iter opts of
                    Inl e \<Rightarrow> (Inl e, self)
                  | Inr r \<Rightarrow> (Inr (), self\<lparr>results := Some r\<rparr>))))"
proof -
  from assms obtain self0 mdl where i: "init Xd ids = Inr self0" and c: "compiled = Inr mdl"
    and s: "self = self0\<lparr>model := Some mdl\<rparr>"
    using stan_init_Inr by blast
  note f = init_Inr(2) [OF i]
  have r: "subj_idx_in_range self0" by (rule init_subj_idx_in_range [OF i])
  have range: "\<forall>k \<in> set (flat (d_subj_idx (stan_data_of self signal))).
             1 \<le> k \<and> k \<le> int (d_j (stan_data_of self signal))"
    using r by (auto simp: stan_data_of_def flat_add_scalar subj_idx_in_range_def s)
  have call: "fst (sample self signal) = Inr () \<longrightarrow>
            (\<exists>mdl. compiled = Inr mdl \<and>
               stan_sample self signal n_chains iter opts =
                 (case mdl (stan_data_of self signal) n_chains iter opts of
                    Inl e \<Rightarrow> (Inl e, self)
                  | Inr r \<Rightarrow> (Inr (), self\<lparr>results := Some r\<rparr>)))"
    using sample_cases [of self signal]
    by (auto simp: stan_sample_def c s Let_def split: sum.splits)
  have rest: "flat (d_subj_idx (stan_data_of self signal)) = map (\<lambda>k. k + 1) (flat (subj_idx self))"
    "shape (d_subj_idx (stan_data_of self signal)) = shape (subj_idx self)"
    "d_n (stan_data_of self signal) = df_shape0 Xd"
    "d_j (stan_data_of self signal) = card (set (flat ids))"
    "d_m (stan_data_of self signal) = df_shape1 Xd"
    "d_X (stan_data_of self signal) = df_values Xd"
    "d_measure (stan_data_of self signal) = signal"
    by (simp_all add: stan_data_of_def add_scalar_def s f)
  from range call rest show ?thesis by blast
qed

theorem stan_data_is_one_based_witness:
  "stan_init (Inr engine_ok) X5 ids5 = Inr stan5_ok \<and>
   fst (sample stan5_ok signal5) = Inr () \<and>
   flat (d_subj_idx (stan_data_of stan5_ok signal5)) = [3, 1, 3, 2, 1] \<and>
   d_n (stan_data_of stan5_ok signal5) = 5 \<and>
   d_j (stan_data_of stan5_ok signal5) = card (set (flat ids5)) \<and>
   d_m (stan_data_of stan5_ok signal5) = 2 \<and>
   stan_sample stan5_ok signal5 1 1000 () =
     (Inr (), stan5_ok\<lparr>results := Some fit0\<rparr>)"
proof -
  have h: "fst (sample stan5_ok signal5) = Inr ()"
    by (simp add: sample_def squeeze_def len_def signal5_def np_array_def stan5_ok_def self5_def
        X5_def df_shape0_def)
  have v: "map (\<lambda>k. k + 1) (flat (subj_idx stan5_ok)) = [3, 1, 3, 2, 1]"
    "df_shape0 X5 = 5" "df_shape1 X5 = 2"
    by (simp_all add: stan5_ok_def self5_def X5_def df_shape0_def df_shape1_def)
  note t = stan_data_is_one_based [OF stan_init_stan5(1), of signal5 1 1000 "()"]
  from t h have "stan_sample stan5_ok signal5 1 1000 () =
      (case engine_ok (stan_data_of stan5_ok signal5) 1 1000 () of
         Inl e \<Rightarrow> (Inl e, stan5_ok)
       | Inr r \<Rightarrow> (Inr (), stan5_ok\<lparr>results := Some r\<rparr>))"
    by auto
  then have c: "stan_sample stan5_ok signal5 1 1000 () =
     (Inr (), stan5_ok\<lparr>results := Some fit0\<rparr>)"
    by (simp add: engine_ok_def)
  from t v have d: "flat (d_subj_idx (stan_data_of stan5_ok signal5)) = [3, 1, 3, 2, 1]"
    "d_n (stan_data_of stan5_ok signal5) = 5"
    "d_j (stan_data_of stan5_ok signal5) = card (set (flat ids5))"
    "d_m (stan_data_of stan5_ok signal5) = 2"
    by simp_all
  from h c d stan_init_stan5(1) show ?thesis by blast
qed

text \<open>
  C2 at a PyMC3 object of five observations and a signal of three elements: no length
  check runs, the engine is invoked with the short signal, and the call returns normally.
\<close>

theorem pymc3_sample_skips_signal_check:
  "pymc3_init X5 ids5 = Inr pymc5 \<and>
   len (squeeze signal3) = Inr 3 \<and> df_shape0 (X pymc5) = 5 \<and>
   pymc3_sample () pm_echo pymc5 signal3 1 1000 () =
     (Inr (), pymc5\<lparr>model := Some (), results := Some signal3\<rparr>)"
proof -
  have "pymc3_init X5 ids5 = Inr pymc5"
    by (simp add: pymc3_init_def pymc5_def init_X5)
  moreover have "len (squeeze signal3) = Inr 3"
    by (simp add: len_def squeeze_def signal3_def np_array_def)
  moreover have "df_shape0 (X pymc5) = 5"
    by (simp add: pymc5_def self5_def X5_def df_shape0_def)
  moreover have "pymc3_sample () pm_echo pymc5 signal3 1 1000 () =
     (Inr (), pymc5\<lparr>model := Some (), results := Some signal3\<rparr>)"
    by (simp add: pymc3_sample_def pm_echo_def)
  ultimately show ?thesis by blast
qed

text \<open>
  The Stan adapter on a signal given as a sequence: a length other than one that differs
  from the row count raises the exception of the length check, and a single element
  raises \<open>TypeError\<close> from \<open>len\<close> of the squeezed, 0-dimensional array; the object is
  unchanged and the outcome does not depend on the engine.
\<close>

lemma stan_sample_rejects_mismatch:
  assumes "length ys \<noteq> 1" and "length ys \<noteq> df_shape0 (X self)"
  shows "stan_sample self (np_array ys) n_chains iter opts = (Inl SignalShapeError, self)"
  using assms by (simp add: stan_sample_def sample_def squeeze_np_array len_def)

lemma stan_sample_one_element:
  "stan_sample self (np_array [y]) n_chains iter opts = (Inl TypeError, self)"
  by (simp add: stan_sample_def sample_def squeeze_np_array len_def)

section \<open>Result accessors\<close>

lemma stan_sample_failed_self:
  "fst (stan_sample self signal n_chains iter opts) = Inl e \<Longrightarrow>
   snd (stan_sample self signal n_chains iter opts) = self"
  using sample_cases [of self signal]
  by (auto simp: stan_sample_def Let_def split: sum.splits option.splits)

lemma stan_do_results_None:
  assumes "results self = None" and "\<not> sample_succeeded self [c]"
  shows "results (stan_do self c) = None"
proof (cases c)
  case (Sample signal n_chains iter opts)
  with assms(2) have "fst (stan_sample self signal n_chains iter opts) \<noteq> Inr ()" by simp
  then obtain e where "fst (stan_sample self signal n_chains iter opts) = Inl e"
    by (cases "fst (stan_sample self signal n_chains iter opts)") auto
  from stan_sample_failed_self [OF this] Sample assms(1) show ?thesis by simp
qed (simp_all add: assms(1))

lemma stan_run_results_None:
  "results self = None \<Longrightarrow> \<not> sample_succeeded self cs \<Longrightarrow> results (stan_run self cs) = None"
proof (induction cs arbitrary: self)
  case Nil
  then show ?case by (simp add: stan_run_def)
next
  case (Cons c cs)
  from Cons.prems have "\<not> sample_succeeded self [c]" and rest: "\<not> sample_succeeded (stan_do self c) cs"
    by simp_all
  then have "results (stan_do self c) = None"
    using Cons.prems(1) by (intro stan_do_results_None)
  from Cons.IH [OF this rest] show ?case by (simp add: stan_run_def)
qed

lemma accessors_not_sampled:
  assumes "results self = None"
  shows "get_subject_traces self melt = (Inl NotSampledError, self)"
    and "get_group_traces self melt = (Inl NotSampledError, self)"
    and "get_group_parameters self = (Inl NotSampledError, self)"
  using assms by (simp_all add: get_subject_traces_def get_group_traces_def get_group_parameters_def)

lemma no_success_example:
  "\<not> sample_succeeded stan5_failing
         [Sample signal3 1 1000 (), GetGroupParameters, Sample signal5 1 1000 ()]"
  by (simp add: stan_sample_def sample_def squeeze_def len_def signal3_def signal5_def np_array_def
      stan5_failing_def self5_def X5_def df_shape0_def engine_failing_def Let_def)

text \<open>
  C4. On a constructed Stan object, after any sequence of calls in which no \<open>sample\<close>
  call returned normally, each of the three accessors raises the exception with the
  message \<open>Model has not been sampled yet!\<close>.
\<close>

theorem accessors_fail_before_sampling:
  assumes "stan_init compiled Xd ids = Inr (s :: ('c, 'v, 's::linorder, 'o) stan_self)"
    and "\<not> sample_succeeded s cs"
  shows "get_subject_traces (stan_run s cs) melt = (Inl NotSampledError, stan_run s cs) \<and>
         get_group_traces (stan_run s cs) melt = (Inl NotSampledError, stan_run s cs) \<and>
         get_group_parameters (stan_run s cs) = (Inl NotSampledError, stan_run s cs) \<and>
         NotSampledError = Exception ''Model has not been sampled yet!''"
proof -
  from assms(1) obtain self0 mdl where "init Xd ids = Inr self0" and "s = self0\<lparr>model := Some mdl\<rparr>"
    using stan_init_Inr by blast
  then have "results s = None"
    using init_Inr(2) [of Xd ids self0] by simp
  from stan_run_results_None [OF this assms(2)] show ?thesis
    by (simp add: accessors_not_sampled NotSampledError_def)
qed

theorem accessors_fail_before_sampling_witness:
  "stan_init (Inr engine_failing) X5 ids5 = Inr stan5_failing \<and>
   \<not> sample_succeeded stan5_failing
         [Sample signal3 1 1000 (), GetGroupParameters, Sample signal5 1 1000 ()] \<and>
   fst (get_subject_traces (stan_run stan5_failing
         [Sample signal3 1 1000 (), GetGroupParameters, Sample signal5 1 1000 ()]) True)
     = Inl NotSampledError \<and>
   fst (get_group_traces (stan_run stan5_failing
         [Sample signal3 1 1000 (), GetGroupParameters, Sample signal5 1 1000 ()]) True)
     = Inl NotSampledError \<and>
   fst (get_group_parameters (stan_run stan5_failing
         [Sample signal3 1 1000 (), GetGroupParameters, Sample signal5 1 1000 ()]))
     = Inl NotSampledError"
  using accessors_fail_before_sampling [OF stan_init_stan5(2) no_success_example, of True]
    stan_init_stan5(2) no_success_example
  by simp

section \<open>Reshaping the draws into tables\<close>

lemma length_rows_of [simp]: "length (rows_of r c xs) = r"
  by (simp add: rows_of_def)

lemma rows_of_nth: "t < r \<Longrightarrow> rows_of r c xs ! t = take c (drop (t * c) xs)"
  by (simp add: rows_of_def)

lemma row_bound: "t < r \<Longrightarrow> (t * c + c :: nat) \<le> r * c"
proof -
  assume "t < r"
  then have "Suc t \<le> r" by simp
  then have "Suc t * c \<le> r * c" by (rule mult_le_mono1)
  then show ?thesis by simp
qed

lemma length_rows_of_nth:
  assumes "t < r" and "r * c \<le> length xs"
  shows "length (rows_of r c xs ! t) = c"
  using row_bound [OF assms(1), of c] assms by (simp add: rows_of_nth)

lemma rows_of_cell:
  assumes "t < r" and "k < c" and "r * c \<le> length xs"
  shows "rows_of r c xs ! t ! k = xs ! (t * c + k)"
  using row_bound [OF assms(1), of c] assms by (simp add: rows_of_nth)

lemma concat_rows_of: "r * c \<le> length xs \<Longrightarrow> concat (rows_of r c xs) = take (r * c) xs"
proof (induction r)
  case 0
  then show ?case by (simp add: rows_of_def)
next
  case (Suc r)
  then have "concat (rows_of r c xs) = take (r * c) xs" by simp
  then have "concat (rows_of (Suc r) c xs) = take (r * c) xs @ take c (drop (r * c) xs)"
    by (simp add: rows_of_def)
  also have "\<dots> = take (r * c + c) xs" by (simp add: take_add)
  finally show ?case by (simp add: add.commute)
qed

lemma length_from_product [simp]: "length (from_product A B) = length A * length B"
  by (induction A) (simp_all add: from_product_def)

lemma from_product_nth:
  "a < length A \<Longrightarrow> b < length B \<Longrightarrow> from_product A B ! (a * length B + b) = (A ! a, B ! b)"
proof (induction A arbitrary: a)
  case Nil
  then show ?case by simp
next
  case (Cons x xs)
  have unfold: "from_product (x # xs) B = map (\<lambda>b. (x, b)) B @ from_product xs B"
    by (simp add: from_product_def)
  show ?case
  proof (cases a)
    case 0
    with Cons.prems show ?thesis by (simp add: unfold nth_append)
  next
    case (Suc a')
    with Cons.prems have "a' < length xs" by simp
    from Cons.IH [OF this Cons.prems(2)] Suc show ?thesis
      by (simp add: unfold nth_append add.assoc)
  qed
qed

lemma mset_columns:
  "mset (concat (map (\<lambda>k. map (\<lambda>row. f row k) (r # rows)) ks)) =
   mset (map (f r) ks) + mset (concat (map (\<lambda>k. map (\<lambda>row. f row k) rows) ks))"
  by (induction ks) simp_all

lemma mset_melt_cells:
  "\<forall>row \<in> set rows. length row = c \<Longrightarrow>
   mset (concat (map (\<lambda>k. map (\<lambda>row. row ! k) rows) [0..<c])) = mset (concat rows)"
proof (induction rows)
  case Nil
  then show ?case by simp
next
  case (Cons r rows)
  then have "length r = c" by simp
  then have "map (\<lambda>k. r ! k) [0..<c] = r" using map_nth [of r] by simp
  with Cons mset_columns [of "\<lambda>row k. row ! k" r rows "[0..<c]"] show ?case by simp
qed

lemma pd_melt_values:
  "wf_dataframe w \<Longrightarrow> mset (map snd (pd_melt w)) = mset (concat (df_values w))"
proof -
  assume "wf_dataframe w"
  then have wf: "\<forall>row \<in> set (df_values w). length row = length (df_columns w)"
    by (simp add: wf_dataframe_def)
  have "map snd (pd_melt w) =
        concat (map (\<lambda>k. map (\<lambda>row. row ! k) (df_values w)) [0..<length (df_columns w)])"
    by (simp add: pd_melt_def map_concat comp_def)
  with mset_melt_cells [OF wf] show ?thesis by simp
qed

lemma wf_rows_of:
  assumes "r * c \<le> length xs"
  shows "\<forall>row \<in> set (rows_of r c xs). length row = c"
proof
  fix row assume "row \<in> set (rows_of r c xs)"
  then obtain t where "t < r" "row = rows_of r c xs ! t"
    by (auto simp: in_set_conv_nth)
  with length_rows_of_nth [OF _ assms] show "length row = c" by simp
qed

lemma pd_DataFrame_Inr:
  assumes "pd_DataFrame a cols = Inr w" and "wf_ndarray a"
  shows "wf_dataframe w" and "df_columns w = cols" and "concat (df_values w) = flat a"
proof -
  from assms(1) consider
      r where "shape a = [r]" "length cols = 1" "w = \<lparr>df_columns = cols, df_values = rows_of r 1 (flat a)\<rparr>"
    | r c where "shape a = [r, c]" "length cols = c" "w = \<lparr>df_columns = cols, df_values = rows_of r c (flat a)\<rparr>"
    by (auto simp: pd_DataFrame_def split: list.splits if_splits)
  then have "wf_dataframe w \<and> df_columns w = cols \<and> concat (df_values w) = flat a"
  proof cases
    case 1
    with assms(2) have len: "length (flat a) = r * 1" by (simp add: wf_ndarray_def)
    with 1 wf_rows_of [of r 1 "flat a"] concat_rows_of [of r 1 "flat a"] show ?thesis
      by (simp add: wf_dataframe_def)
  next
    case 2
    with assms(2) have len: "length (flat a) = r * c" by (simp add: wf_ndarray_def)
    with 2 wf_rows_of [of r c "flat a"] concat_rows_of [of r c "flat a"] show ?thesis
      by (simp add: wf_dataframe_def)
  qed
  then show "wf_dataframe w" and "df_columns w = cols" and "concat (df_values w) = flat a"
    by simp_all
qed

lemma subject_traces_Inr:
  assumes "subject_traces self r melt = Inr t"
  shows "\<exists>d d1 rest w. shape (beta_subject r) = d # d1 # rest \<and> wf_ndarray (beta_subject r) \<and>
           pd_DataFrame (beta_subject r\<lparr>shape := [d, prod_list (d1 # rest)]\<rparr>)
             (from_product (unique_subject_ids self) (df_columns (X self))) = Inr w \<and>
           t = (if melt then Melted (pd_melt w) else Wide w)"
  using assms
  by (auto simp: subject_traces_def reshape_def wf_ndarray_def split: list.splits sum.splits if_splits)

lemma subject_traces_Wide:
  assumes "subject_traces self r False = Inr (Wide w)"
  shows "\<exists>tr. wf_ndarray tr \<and> flat tr = flat (beta_subject r) \<and>
           pd_DataFrame tr (from_product (unique_subject_ids self) (df_columns (X self))) = Inr w \<and>
           subject_traces self r True = Inr (Melted (pd_melt w))"
proof -
  from subject_traces_Inr [OF assms] obtain d d1 rest where
    sh: "shape (beta_subject r) = d # d1 # rest" and wf: "wf_ndarray (beta_subject r)" and
    df: "pd_DataFrame (beta_subject r\<lparr>shape := [d, prod_list (d1 # rest)]\<rparr>)
             (from_product (unique_subject_ids self) (df_columns (X self))) = Inr w"
    by auto
  let ?tr = "beta_subject r\<lparr>shape := [d, prod_list (d1 # rest)]\<rparr>"
  have "wf_ndarray ?tr" using wf sh by (simp add: wf_ndarray_def)
  moreover have "flat ?tr = flat (beta_subject r)" by simp
  moreover have "subject_traces self r True = Inr (Melted (pd_melt w))"
    using sh wf df by (simp add: subject_traces_def reshape_def wf_ndarray_def)
  ultimately show ?thesis using df by blast
qed

lemma cell_bound: "a < j \<Longrightarrow> b < m \<Longrightarrow> (a * m + b :: nat) < j * m"
proof -
  assume "a < j" "b < m"
  then have "a * m + b < a * m + m" by simp
  also have "\<dots> \<le> j * m" using \<open>a < j\<close> by (rule row_bound)
  finally show ?thesis .
qed

lemma stan_run_sampled: "stan_run stan5_ok [Sample signal5 1 1000 ()] = stan5_sampled"
  by (simp add: stan_run_def stan_sample_def sample_def squeeze_def len_def signal5_def np_array_def
      stan5_ok_def stan5_sampled_def self5_def X5_def df_shape0_def engine_ok_def Let_def)

lemma upt_2: "[0..<2] = [0, 1]"
  by (simp add: upt_rec)

lemma get_subject_traces_sampled:
  "get_subject_traces stan5_sampled False = (Inr (Wide wide5), stan5_sampled)"
  by (simp add: get_subject_traces_def subject_traces_def reshape_def pd_DataFrame_def rows_of_def
      from_product_def upt_2 stan5_sampled_def stan5_ok_def self5_def X5_def fit0_def wide5_def)

lemma get_group_traces_sampled:
  "get_group_traces stan5_sampled False = (Inr (Wide group5), stan5_sampled)"
  by (simp add: get_group_traces_def pd_DataFrame_def rows_of_def upt_2
      stan5_sampled_def stan5_ok_def self5_def X5_def fit0_def group5_def)

text \<open>
  C6. On a constructed Stan object whose results hold subject draws of shape
  (draws, j, m), with j the subject count and m the number of predictors,
  \<open>get_subject_traces\<close> returns a wide table with the j * m column labels
  (subject id, predictor name) in subject-major order over the sorted unique ids and the
  columns of X, one row of j * m cells per draw, and in row \<open>t\<close> of the column of subject
  rank \<open>a\<close> and predictor index \<open>b\<close> the draw \<open>beta_subject[t, a, b]\<close>.
\<close>

theorem subject_traces_table:
  assumes "stan_init compiled Xd ids = Inr (s0 :: ('c, 'v, 's::linorder, 'o) stan_self)"
    and "results (stan_run s0 cs) = Some r"
    and "wf_ndarray (beta_subject r)"
    and "shape (beta_subject r) = [d, n_subjects s0, df_shape1 Xd]"
  shows "\<exists>w. get_subject_traces (stan_run s0 cs) False = (Inr (Wide w), stan_run s0 cs) \<and>
          df_columns w = from_product (unique_subject_ids s0) (df_columns Xd) \<and>
          length (df_columns w) = card (set (flat ids)) * length (df_columns Xd) \<and>
          length (df_values w) = d \<and>
          (\<forall>t < d. length (df_values w ! t) = length (df_columns w)) \<and>
          (\<forall>a < card (set (flat ids)). \<forall>b < length (df_columns Xd).
              df_columns w ! (a * length (df_columns Xd) + b) = (unique_subject_ids s0 ! a, df_columns Xd ! b) \<and>
              (\<forall>t < d. df_values w ! t ! (a * length (df_columns Xd) + b) = item (beta_subject r) [t, a, b]))"
proof -
  define j where "j = card (set (flat ids))"
  define m where "m = length (df_columns Xd)"
  define xs where "xs = flat (beta_subject r)"
  define cols where "cols = from_product (unique_subject_ids s0) (df_columns Xd)"
  define w where "w = \<lparr>df_columns = cols, df_values = rows_of d (j * m) xs\<rparr>"
  from assms(1) obtain self0 mdl where i: "init Xd ids = Inr self0" and s0: "s0 = self0\<lparr>model := Some mdl\<rparr>"
    using stan_init_Inr by blast
  note f = init_Inr(2) [OF i]
  have u: "unique_subject_ids s0 = np_unique ids" and n: "n_subjects s0 = j" and x: "X s0 = Xd"
    by (simp_all add: s0 f j_def)
  have lu: "length (unique_subject_ids s0) = j"
    by (simp add: u length_np_unique j_def)
  have sh: "shape (beta_subject r) = [d, j, m]"
    using assms(4) by (simp add: n m_def df_shape1_def)
  have len: "length xs = d * (j * m)"
    using assms(3) sh by (simp add: wf_ndarray_def xs_def)
  have lc: "length cols = j * m"
    by (simp add: cols_def lu m_def)
  have fr: "unique_subject_ids (stan_run s0 cs) = unique_subject_ids s0" "X (stan_run s0 cs) = Xd"
    using stan_run_frame [of s0 cs] x by simp_all
  have "subject_traces (stan_run s0 cs) r False = Inr (Wide w)"
    using sh len lc
    by (simp add: subject_traces_def reshape_def pd_DataFrame_def fr w_def cols_def xs_def)
  then have get: "get_subject_traces (stan_run s0 cs) False = (Inr (Wide w), stan_run s0 cs)"
    using assms(2) by (simp add: get_subject_traces_def)
  have rows: "\<forall>t < d. length (df_values w ! t) = length (df_columns w)"
    using len by (simp add: w_def lc length_rows_of_nth)
  have cells: "\<forall>a < j. \<forall>b < m.
      df_columns w ! (a * m + b) = (unique_subject_ids s0 ! a, df_columns Xd ! b) \<and>
      (\<forall>t < d. df_values w ! t ! (a * m + b) = item (beta_subject r) [t, a, b])"
  proof (intro allI impI conjI)
    fix a b assume a: "a < j" and b: "b < m"
    show "df_columns w ! (a * m + b) = (unique_subject_ids s0 ! a, df_columns Xd ! b)"
      using from_product_nth [of a "unique_subject_ids s0" b "df_columns Xd"] a b
      by (simp add: w_def cols_def lu m_def)
    fix t assume t: "t < d"
    have "rows_of d (j * m) xs ! t ! (a * m + b) = xs ! (t * (j * m) + (a * m + b))"
      using t cell_bound [OF a b] len by (intro rows_of_cell) simp_all
    also have "t * (j * m) + (a * m + b) = (t * j + a) * m + b"
      by (simp add: algebra_simps)
    finally show "df_values w ! t ! (a * m + b) = item (beta_subject r) [t, a, b]"
      by (simp add: w_def item_def ravel_def sh xs_def)
  qed
  have basic: "df_columns w = from_product (unique_subject_ids s0) (df_columns Xd)"
    "length (df_columns w) = j * m" "length (df_values w) = d"
    using lc by (simp_all add: w_def cols_def)
  from get basic rows cells show ?thesis
    unfolding j_def [symmetric] m_def [symmetric] by blast
qed

theorem subject_traces_table_witness:
  "stan_init (Inr engine_ok) X5 ids5 = Inr stan5_ok \<and>
   results (stan_run stan5_ok [Sample signal5 1 1000 ()]) = Some fit0 \<and>
   wf_ndarray (beta_subject fit0) \<and>
   shape (beta_subject fit0) = [2, n_subjects stan5_ok, df_shape1 X5] \<and>
   get_subject_traces (stan_run stan5_ok [Sample signal5 1 1000 ()]) False =
     (Inr (Wide wide5), stan_run stan5_ok [Sample signal5 1 1000 ()]) \<and>
   length (df_columns wide5) = card (set (flat ids5)) * length (df_columns X5) \<and>
   df_columns wide5 ! (1 * length (df_columns X5) + 1) = (unique_subject_ids stan5_ok ! 1, df_columns X5 ! 1) \<and>
   df_values wide5 ! 1 ! (1 * length (df_columns X5) + 1) = item (beta_subject fit0) [1, 1, 1]"
proof -
  have h2: "results (stan_run stan5_ok [Sample signal5 1 1000 ()]) = Some fit0"
    by (simp add: stan_run_sampled stan5_sampled_def)
  have h3: "wf_ndarray (beta_subject fit0)"
    by (simp add: wf_ndarray_def fit0_def)
  have h4: "shape (beta_subject fit0) = [2, n_subjects stan5_ok, df_shape1 X5]"
    by (simp add: fit0_def stan5_ok_def self5_def X5_def df_shape1_def)
  have g: "get_subject_traces (stan_run stan5_ok [Sample signal5 1 1000 ()]) False =
     (Inr (Wide wide5), stan_run stan5_ok [Sample signal5 1 1000 ()])"
    by (simp add: stan_run_sampled get_subject_traces_sampled)
  have b: "(1::nat) < card (set (flat ids5))" "(1::nat) < length (df_columns X5)" "(1::nat) < 2"
    using length_np_unique [of ids5, symmetric]
    by (simp_all add: X5_def np_unique_def ids5_def np_array_def)
  from subject_traces_table [OF stan_init_stan5(1) h2 h3 h4] g
  have "length (df_columns wide5) = card (set (flat ids5)) * length (df_columns X5) \<and>
        (\<forall>a < card (set (flat ids5)). \<forall>b < length (df_columns X5).
              df_columns wide5 ! (a * length (df_columns X5) + b) = (unique_subject_ids stan5_ok ! a, df_columns X5 ! b) \<and>
              (\<forall>t < 2. df_values wide5 ! t ! (a * length (df_columns X5) + b) = item (beta_subject fit0) [t, a, b]))"
    by auto
  with b stan_init_stan5(1) h2 h3 h4 g show ?thesis by blast
qed

text \<open>
  C5. For a sampled object, whenever the wide subject table (or the wide group table) is
  returned, the long form is \<open>pd.melt\<close> of that very table, the multiset of its values is
  the multiset of the cells of the wide table, and the cells of the wide table, row after
  row, are the raw draws.
\<close>

theorem melt_preserves_values:
  assumes "results self = Some r" and "wf_ndarray (beta_group r)"
  shows "(get_subject_traces self False = (Inr (Wide w), self) \<longrightarrow>
            get_subject_traces self True = (Inr (Melted (pd_melt w)), self) \<and>
            mset (map snd (pd_melt w)) = mset (concat (df_values w)) \<and>
            concat (df_values w) = flat (beta_subject r)) \<and>
         (get_group_traces self False = (Inr (Wide g), self) \<longrightarrow>
            get_group_traces self True = (Inr (Melted (pd_melt g)), self) \<and>
            mset (map snd (pd_melt g)) = mset (concat (df_values g)) \<and>
            concat (df_values g) = flat (beta_group r))"
proof (intro conjI impI)
  assume "get_subject_traces self False = (Inr (Wide w), self)"
  with assms(1) have "subject_traces self r False = Inr (Wide w)"
    by (simp add: get_subject_traces_def)
  from subject_traces_Wide [OF this] obtain tr where tr: "wf_ndarray tr" "flat tr = flat (beta_subject r)"
    "pd_DataFrame tr (from_product (unique_subject_ids self) (df_columns (X self))) = Inr w"
    "subject_traces self r True = Inr (Melted (pd_melt w))"
    by blast
  show "get_subject_traces self True = (Inr (Melted (pd_melt w)), self)"
    using assms(1) tr(4) by (simp add: get_subject_traces_def)
  show "mset (map snd (pd_melt w)) = mset (concat (df_values w))"
    using pd_DataFrame_Inr(1) [OF tr(3) tr(1)] by (rule pd_melt_values)
  show "concat (df_values w) = flat (beta_subject r)"
    using pd_DataFrame_Inr(3) [OF tr(3) tr(1)] tr(2) by simp
next
  assume "get_group_traces self False = (Inr (Wide g), self)"
  with assms(1) have g: "pd_DataFrame (beta_group r) (df_columns (X self)) = Inr g"
    by (simp add: get_group_traces_def split: sum.splits)
  show "get_group_traces self True = (Inr (Melted (pd_melt g)), self)"
    using assms(1) g by (simp add: get_group_traces_def)
  show "mset (map snd (pd_melt g)) = mset (concat (df_values g))"
    using pd_DataFrame_Inr(1) [OF g assms(2)] by (rule pd_melt_values)
  show "concat (df_values g) = flat (beta_group r)"
    by (rule pd_DataFrame_Inr(3) [OF g assms(2)])
qed

theorem melt_preserves_values_witness:
  "results stan5_sampled = Some fit0 \<and> wf_ndarray (beta_group fit0) \<and>
   get_subject_traces stan5_sampled False = (Inr (Wide wide5), stan5_sampled) \<and>
   get_group_traces stan5_sampled False = (Inr (Wide group5), stan5_sampled) \<and>
   get_subject_traces stan5_sampled True = (Inr (Melted (pd_melt wide5)), stan5_sampled) \<and>
   mset (map snd (pd_melt wide5)) = mset (concat (df_values wide5)) \<and>
   concat (df_values wide5) = flat (beta_subject fit0) \<and>
   get_group_traces stan5_sampled True = (Inr (Melted (pd_melt group5)), stan5_sampled) \<and>
   mset (map snd (pd_melt group5)) = mset (concat (df_values group5)) \<and>
   pd_melt group5 = [(''a'', 1), (''a'', 3), (''b'', 2), (''b'', 4)]"
proof -
  have h1: "results stan5_sampled = Some fit0" by (simp add: stan5_sampled_def)
  have h2: "wf_ndarray (beta_group fit0)" by (simp add: wf_ndarray_def fit0_def)
  have m: "pd_melt group5 = [(''a'', 1), (''a'', 3), (''b'', 2), (''b'', 4)]"
    by (simp add: pd_melt_def group5_def upt_2)
  from melt_preserves_values [OF h1 h2, of wide5 group5]
    get_subject_traces_sampled get_group_traces_sampled h1 h2 m
  show ?thesis by blast
qed

end
